theory Spec2Isabelle
  imports Main
begin

section \<open>Core types (src/types/index.ts)\<close>

datatype UserRole = super_admin | org_admin | member

datatype UserStatus = active | inactive | pending

text \<open>
  The fields \<open>id\<close>, \<open>name\<close> and \<open>createdAt\<close> occur in both \<open>Tenant\<close> and \<open>User\<close>;
  they carry the prefix \<open>t_\<close> or \<open>u_\<close> here. An optional field (\<open>logoUrl?\<close>) is an
  \<open>option\<close>.
\<close>

record Tenant =
  t_id :: string
  t_name :: string
  slug :: string
  logoUrl :: "string option"
  t_createdAt :: string

record User =
  u_id :: string
  email :: string
  u_name :: string
  role :: UserRole
  tenantId :: string
  avatarUrl :: "string option"
  u_createdAt :: string
  lastLoginAt :: "string option"
  status :: UserStatus

record Permission =
  canViewAllTenants :: bool
  canSwitchTenants :: bool
  canManageUsers :: bool
  canEditSettings :: bool
  canViewAnalytics :: bool

record NavItem =
  label :: string
  path :: string
  icon :: string
  requiredRoles :: "UserRole list"

section \<open>Permission utilities (lib/permissions)\<close>

fun getPermissions :: "UserRole \<Rightarrow> Permission" where
  "getPermissions super_admin =
     \<lparr>canViewAllTenants = True, canSwitchTenants = True, canManageUsers = True,
      canEditSettings = True, canViewAnalytics = True\<rparr>"
| "getPermissions org_admin =
     \<lparr>canViewAllTenants = False, canSwitchTenants = False, canManageUsers = True,
      canEditSettings = True, canViewAnalytics = True\<rparr>"
| "getPermissions member =
     \<lparr>canViewAllTenants = False, canSwitchTenants = False, canManageUsers = False,
      canEditSettings = False, canViewAnalytics = True\<rparr>"

definition navigationItems :: "NavItem list" where
  "navigationItems =
     [\<lparr>label = ''Dashboard'', path = ''/dashboard'', icon = ''LayoutDashboard'',
       requiredRoles = [super_admin, org_admin, member]\<rparr>,
      \<lparr>label = ''Users'', path = ''/dashboard/users'', icon = ''Users'',
       requiredRoles = [super_admin, org_admin]\<rparr>,
      \<lparr>label = ''Settings'', path = ''/dashboard/settings'', icon = ''Settings'',
       requiredRoles = [super_admin, org_admin]\<rparr>]"

text \<open>\<open>Array.prototype.includes\<close> on a list of roles.\<close>

definition array_includes :: "'a list \<Rightarrow> 'a \<Rightarrow> bool" where
  "array_includes xs x = (x \<in> set xs)"

definition getNavigationForRole :: "UserRole \<Rightarrow> NavItem list" where
  "getNavigationForRole r = filter (\<lambda>item. array_includes (requiredRoles item) r) navigationItems"

text \<open>
  \<open>Array.prototype.find\<close> is \<open>List.find\<close>: the first element that satisfies the
  predicate, \<open>None\<close> for JavaScript's \<open>undefined\<close>.
\<close>

definition canAccessRoute :: "UserRole \<Rightarrow> string \<Rightarrow> bool" where
  "canAccessRoute r p =
     (case find (\<lambda>item. path item = p) navigationItems of
        None \<Rightarrow> True
      | Some navItem \<Rightarrow> array_includes (requiredRoles navItem) r)"

section \<open>Collaborators: errors, the Session Store, the clock\<close>

text \<open>
  A thrown \<open>new Error(message)\<close> and a rejected promise are values \<open>Error message\<close>;
  a fallible operation returns \<open>error + 'a\<close>. The two errors of \<open>switchTenant\<close> are
  named as the specification names them.
\<close>

datatype error = Error string

definition Unauthorized :: error where
  "Unauthorized = Error ''Only super admins can switch tenants''"

definition TenantNotFound :: error where
  "TenantNotFound = Error ''Tenant not found''"

text \<open>
  \<open>localStorage\<close>: \<open>getItem k\<close> is \<open>ls k\<close> (\<open>None\<close> for \<open>null\<close>), \<open>setItem k v\<close> is
  \<open>ls(k \<mapsto> v)\<close>, \<open>removeItem k\<close> is \<open>ls(k := None)\<close>.
\<close>

type_synonym Storage = "string \<rightharpoonup> string"

definition AUTH_STORAGE_KEY :: string where
  "AUTH_STORAGE_KEY = ''dashboard_auth''"

definition TENANT_STORAGE_KEY :: string where
  "TENANT_STORAGE_KEY = ''dashboard_tenant''"

text \<open>
  JavaScript truthiness of a \<open>string | null\<close>, as tested by \<open>if (stored)\<close> and
  \<open>storedTenantId ? _ : _\<close>: \<open>null\<close> and the empty string are falsy.
\<close>

definition truthy :: "string option \<Rightarrow> bool" where
  "truthy v = (case v of None \<Rightarrow> False | Some s \<Rightarrow> s \<noteq> [])"

text \<open>
  The readings of the clock that \<open>authApi.login\<close> takes when it fabricates a user:
  \<open>Date.now()\<close> and two calls of \<open>new Date().toISOString()\<close>.
\<close>

record Clock =
  Date_now :: nat
  createdAt_iso :: string
  lastLoginAt_iso :: string

section \<open>Mock API layer (lib/mock-api)\<close>

definition mockTenants :: "Tenant list" where
  "mockTenants =
     [\<lparr>t_id = ''tenant-1'', t_name = ''Acme Corporation'', slug = ''acme'', logoUrl = None,
       t_createdAt = ''2024-01-15T10:00:00Z''\<rparr>,
      \<lparr>t_id = ''tenant-2'', t_name = ''TechStart Inc'', slug = ''techstart'', logoUrl = None,
       t_createdAt = ''2024-02-20T14:30:00Z''\<rparr>,
      \<lparr>t_id = ''tenant-3'', t_name = ''Global Dynamics'', slug = ''global-dynamics'',
       logoUrl = None, t_createdAt = ''2024-03-10T09:15:00Z''\<rparr>]"

definition mockUsers :: "User list" where
  "mockUsers =
     [\<lparr>u_id = ''user-1'', email = ''superadmin@platform.com'', u_name = ''Sarah Chen'',
       role = super_admin, tenantId = ''tenant-1'', avatarUrl = None,
       u_createdAt = ''2024-01-15T10:00:00Z'', lastLoginAt = Some ''2024-12-22T08:30:00Z'',
       status = active\<rparr>,
      \<lparr>u_id = ''user-2'', email = ''admin@acme.com'', u_name = ''Michael Torres'',
       role = org_admin, tenantId = ''tenant-1'', avatarUrl = None,
       u_createdAt = ''2024-01-20T11:00:00Z'', lastLoginAt = Some ''2024-12-21T14:20:00Z'',
       status = active\<rparr>,
      \<lparr>u_id = ''user-3'', email = ''member@acme.com'', u_name = ''Emily Watson'',
       role = member, tenantId = ''tenant-1'', avatarUrl = None,
       u_createdAt = ''2024-02-05T09:00:00Z'', lastLoginAt = Some ''2024-12-20T16:45:00Z'',
       status = active\<rparr>,
      \<lparr>u_id = ''user-4'', email = ''admin@techstart.com'', u_name = ''David Kim'',
       role = org_admin, tenantId = ''tenant-2'', avatarUrl = None,
       u_createdAt = ''2024-02-20T14:30:00Z'', lastLoginAt = Some ''2024-12-19T10:00:00Z'',
       status = active\<rparr>,
      \<lparr>u_id = ''user-5'', email = ''member@techstart.com'', u_name = ''Lisa Park'',
       role = member, tenantId = ''tenant-2'', avatarUrl = None,
       u_createdAt = ''2024-02-25T08:00:00Z'', lastLoginAt = None, status = pending\<rparr>,
      \<lparr>u_id = ''user-6'', email = ''admin@global.com'', u_name = ''James Wilson'',
       role = org_admin, tenantId = ''tenant-3'', avatarUrl = None,
       u_createdAt = ''2024-03-10T09:15:00Z'', lastLoginAt = Some ''2024-12-18T12:30:00Z'',
       status = active\<rparr>,
      \<lparr>u_id = ''user-7'', email = ''member1@global.com'', u_name = ''Anna Schmidt'',
       role = member, tenantId = ''tenant-3'', avatarUrl = None,
       u_createdAt = ''2024-03-15T10:00:00Z'', lastLoginAt = None, status = inactive\<rparr>,
      \<lparr>u_id = ''user-8'', email = ''member2@global.com'', u_name = ''Carlos Rivera'',
       role = member, tenantId = ''tenant-3'', avatarUrl = None,
       u_createdAt = ''2024-03-20T11:00:00Z'', lastLoginAt = Some ''2024-12-17T09:00:00Z'',
       status = active\<rparr>]"

text \<open>The template literals \<open>${role}\<close> and \<open>${Date.now()}\<close>.\<close>

fun role_string :: "UserRole \<Rightarrow> string" where
  "role_string super_admin = ''super_admin''"
| "role_string org_admin = ''org_admin''"
| "role_string member = ''member''"

definition digit_char :: "nat \<Rightarrow> char" where
  "digit_char d = ''0123456789'' ! d"

function decimal :: "nat \<Rightarrow> string" where
  "decimal n = (if n < 10 then [digit_char n] else decimal (n div 10) @ [digit_char (n mod 10)])"
  by pat_completeness auto
termination
  by (relation "measure (\<lambda>n. n)") auto

declare decimal.simps [simp del]

text \<open>
  \<open>authApi.login\<close>: the simulated delay is dropped, the body has no \<open>throw\<close>. The first
  \<open>find\<close> is overwritten for \<open>super_admin\<close>; a missing user is fabricated.
\<close>

definition authApi_login :: "Clock \<Rightarrow> UserRole \<Rightarrow> string \<Rightarrow> User" where
  "authApi_login clock r tid =
     (let user0 = find (\<lambda>u. role u = r \<and> tenantId u = tid) mockUsers;
          user1 = (if r = super_admin then find (\<lambda>u. role u = super_admin) mockUsers
                   else user0)
      in case user1 of
           Some u \<Rightarrow> u
         | None \<Rightarrow>
             \<lparr>u_id = ''user-'' @ decimal (Date_now clock),
              email = role_string r @ ''@'' @ tid @ ''.com'',
              u_name = (if r = super_admin then ''Super Admin''
                        else if r = org_admin then ''Org Admin'' else ''Member''),
              role = r, tenantId = tid, avatarUrl = None,
              u_createdAt = createdAt_iso clock,
              lastLoginAt = Some (lastLoginAt_iso clock),
              status = active\<rparr>)"

text \<open>\<open>authApi.logout\<close> only waits; \<open>tenantsApi.getAll\<close> returns the mock catalog.\<close>

definition authApi_logout :: "error + unit" where
  "authApi_logout = Inr ()"

definition tenantsApi_getAll :: "error + Tenant list" where
  "tenantsApi_getAll = Inr mockTenants"

text \<open>
  The contexts below take the awaited outcome of a collaborator's promise as an argument
  of type \<open>error + 'a\<close> (\<open>Inl\<close> for a rejection), so that their own handling of a failure
  is part of the model. The mock provider as such an argument:
\<close>

definition mock_authApi_login :: "Clock \<Rightarrow> UserRole \<Rightarrow> string \<Rightarrow> error + User" where
  "mock_authApi_login clock r tid = Inr (authApi_login clock r tid)"

section \<open>Authentication context (contexts/AuthContext)\<close>

text \<open>
  The state is typed \<open>User | null\<close> in the source, but the restore effect fills it with
  whatever \<open>JSON.parse\<close> returns, through the unchecked cast \<open>as User\<close>. The type \<open>'v\<close> of
  the values that the \<open>user\<close> field holds is therefore a parameter; it is \<open>User\<close> wherever
  the code reads a field of the user. \<open>None\<close> is \<open>null\<close>.
\<close>

record 'v AuthState =
  user :: "'v option"
  isAuthenticated :: bool
  isLoading :: bool

definition initialAuthState :: "'v AuthState" where
  "initialAuthState = \<lparr>user = None, isAuthenticated = False, isLoading = True\<rparr>"

text \<open>
  Each operation of a provider runs to completion on the pair of the React state and
  \<open>localStorage\<close>; \<open>setState(prev => ...)\<close> updates the state it finds.

  \<open>JSON.parse\<close> and \<open>JSON.stringify\<close> belong to the platform and are arguments. The
  outcome of \<open>JSON.parse\<close> is \<open>Throws\<close> for the \<open>SyntaxError\<close> on a text that is not JSON,
  and \<open>Returns v\<close> for the value returned (\<open>None\<close> for \<open>null\<close>), which nothing checks to be
  a \<open>User\<close>.
\<close>

datatype 'v parsed = Throws | Returns "'v option"

text \<open>The restore effect of \<open>AuthProvider\<close> (run once on mount):\<close>

definition AuthProvider_restore ::
  "(string \<Rightarrow> 'v parsed) \<Rightarrow> 'v AuthState \<times> Storage \<Rightarrow> 'v AuthState \<times> Storage" where
  "AuthProvider_restore JSON_parse = (\<lambda>(prev, localStorage).
     let stored = localStorage AUTH_STORAGE_KEY in
     if truthy stored then
       (case stored of
          None \<Rightarrow> (prev\<lparr>isLoading := False\<rparr>, localStorage)
        | Some s \<Rightarrow>
            (case JSON_parse s of
               Returns parsed_user \<Rightarrow>
                 (\<lparr>user = parsed_user, isAuthenticated = True, isLoading = False\<rparr>,
                  localStorage)
             | Throws \<Rightarrow>
                 (prev\<lparr>isLoading := False\<rparr>, localStorage(AUTH_STORAGE_KEY := None))))
     else (prev\<lparr>isLoading := False\<rparr>, localStorage))"

text \<open>
  \<open>login\<close>: the argument \<open>api_login\<close> is \<open>authApi.login\<close> with its awaited outcome; the
  \<open>catch\<close> branch resets the loading flag and rethrows.
\<close>

definition login ::
  "(User \<Rightarrow> string) \<Rightarrow> (UserRole \<Rightarrow> string \<Rightarrow> error + User) \<Rightarrow> UserRole \<Rightarrow> string \<Rightarrow>
   User AuthState \<times> Storage \<Rightarrow> (error + unit) \<times> User AuthState \<times> Storage" where
  "login JSON_stringify api_login r tid = (\<lambda>(prev, localStorage).
     let st1 = prev\<lparr>isLoading := True\<rparr> in
     case api_login r tid of
       Inr u \<Rightarrow>
         (Inr (), \<lparr>user = Some u, isAuthenticated = True, isLoading = False\<rparr>,
          localStorage(AUTH_STORAGE_KEY \<mapsto> JSON_stringify u))
     | Inl e \<Rightarrow> (Inl e, st1\<lparr>isLoading := False\<rparr>, localStorage))"

text \<open>
  \<open>logout\<close>: \<open>await authApi.logout()\<close> stands outside any \<open>try\<close>, so a rejection leaves
  the function before \<open>removeItem\<close> and \<open>setState\<close>.
\<close>

definition logout ::
  "error + unit \<Rightarrow> 'v AuthState \<times> Storage \<Rightarrow> (error + unit) \<times> 'v AuthState \<times> Storage" where
  "logout api_logout = (\<lambda>(prev, localStorage).
     case api_logout of
       Inl e \<Rightarrow> (Inl e, prev, localStorage)
     | Inr _ \<Rightarrow>
         (Inr (), \<lparr>user = None, isAuthenticated = False, isLoading = False\<rparr>,
          localStorage(AUTH_STORAGE_KEY := None)))"

section \<open>Tenant context (contexts/TenantContext)\<close>

record TenantState =
  currentTenant :: "Tenant option"
  availableTenants :: "Tenant list"
  t_isLoading :: bool

definition initialTenantState :: TenantState where
  "initialTenantState = \<lparr>currentTenant = None, availableTenants = [], t_isLoading = True\<rparr>"

text \<open>
  \<open>tenants[0]\<close>: the first element, \<open>undefined\<close> on the empty array. Both \<open>undefined\<close>
  and \<open>null\<close> are the absent tenant \<open>None\<close>.
\<close>

definition index0 :: "'a list \<Rightarrow> 'a option" where
  "index0 xs = (case xs of [] \<Rightarrow> None | x # _ \<Rightarrow> Some x)"

text \<open>\<open>a || b\<close> on objects: \<open>b\<close> only when \<open>a\<close> is absent.\<close>

definition or_else :: "'a option \<Rightarrow> 'a option \<Rightarrow> 'a option" where
  "or_else a b = (case a of Some x \<Rightarrow> Some x | None \<Rightarrow> b)"

text \<open>
  \<open>loadTenants\<close>, the effect run when \<open>isAuthenticated\<close> or \<open>user\<close> changes; \<open>fetched\<close> is
  the awaited outcome of \<open>tenantsApi.getAll()\<close>.
\<close>

definition loadTenants ::
  "User AuthState \<Rightarrow> error + Tenant list \<Rightarrow> TenantState \<times> Storage \<Rightarrow> TenantState \<times> Storage" where
  "loadTenants auth fetched = (\<lambda>(prev, localStorage).
     case (if isAuthenticated auth then user auth else None) of
       None \<Rightarrow>
         (\<lparr>currentTenant = None, availableTenants = [], t_isLoading = False\<rparr>, localStorage)
     | Some u \<Rightarrow>
         (let st1 = prev\<lparr>t_isLoading := True\<rparr> in
          case fetched of
            Inl e \<Rightarrow> (st1\<lparr>t_isLoading := False\<rparr>, localStorage)
          | Inr tenants \<Rightarrow>
              (let storedTenantId = localStorage TENANT_STORAGE_KEY;
                   current =
                     (if role u = super_admin then
                        (if truthy storedTenantId
                         then or_else (find (\<lambda>t. Some (t_id t) = storedTenantId) tenants)
                                      (index0 tenants)
                         else index0 tenants)
                      else or_else (find (\<lambda>t. t_id t = tenantId u) tenants) None);
                   localStorage' =
                     (case current of
                        Some t \<Rightarrow> localStorage(TENANT_STORAGE_KEY \<mapsto> t_id t)
                      | None \<Rightarrow> localStorage)
               in (\<lparr>currentTenant = current,
                    availableTenants = (if role u = super_admin then tenants else []),
                    t_isLoading = False\<rparr>, localStorage'))))"

text \<open>\<open>switchTenant\<close>: \<open>usr\<close> is the \<open>user\<close> of the authentication context.\<close>

definition switchTenant ::
  "User option \<Rightarrow> string \<Rightarrow> TenantState \<times> Storage \<Rightarrow> (error + unit) \<times> TenantState \<times> Storage" where
  "switchTenant usr tid = (\<lambda>(state, localStorage).
     if (case usr of None \<Rightarrow> True | Some u \<Rightarrow> role u \<noteq> super_admin)
     then (Inl Unauthorized, state, localStorage)
     else
       (case find (\<lambda>t. t_id t = tid) (availableTenants state) of
          None \<Rightarrow> (Inl TenantNotFound, state, localStorage)
        | Some tenant \<Rightarrow>
            (Inr (), state\<lparr>currentTenant := Some tenant\<rparr>,
             localStorage(TENANT_STORAGE_KEY \<mapsto> tid))))"

text \<open>\<open>refreshTenants\<close>: no \<open>try\<close>, a rejected fetch leaves the state as it is.\<close>

definition refreshTenants ::
  "error + Tenant list \<Rightarrow> TenantState \<Rightarrow> (error + unit) \<times> TenantState" where
  "refreshTenants fetched prev =
     (case fetched of
        Inl e \<Rightarrow> (Inl e, prev)
      | Inr tenants \<Rightarrow> (Inr (), prev\<lparr>availableTenants := tenants\<rparr>))"

section \<open>Route guard (components/guards/ProtectedRoute)\<close>

text \<open>
  What the component returns, in the order of its \<open>return\<close> statements. The optional prop
  \<open>requiredRoles\<close> is \<open>requiredRolesProp\<close>, \<open>None\<close> when it is not passed; an array, also the
  empty one, is truthy. The test \<open>!isAuthenticated || !user\<close> is the \<open>None\<close> case of
  \<open>if isAuthenticated auth then user auth else None\<close>, here and in \<open>loadTenants\<close>.
\<close>

datatype Rendered = LoadingView | NavigateToLogin | UnauthorizedFallback | Children

definition ProtectedRoute ::
  "User AuthState \<Rightarrow> TenantState \<Rightarrow> UserRole list option \<Rightarrow> string \<Rightarrow> Rendered" where
  "ProtectedRoute auth tenant requiredRolesProp pathname =
     (if isLoading auth \<or> t_isLoading tenant then LoadingView
      else
        (case (if isAuthenticated auth then user auth else None) of
           None \<Rightarrow> NavigateToLogin
         | Some u \<Rightarrow>
             if (case requiredRolesProp of
                   None \<Rightarrow> False
                 | Some rs \<Rightarrow> \<not> array_includes rs (role u))
             then UnauthorizedFallback
             else if \<not> canAccessRoute (role u) pathname then UnauthorizedFallback
             else Children))"

section \<open>A reference JSON codec for the session entry\<close>

text \<open>
  The providers take \<open>JSON.parse\<close> and \<open>JSON.stringify\<close> as arguments. This section gives
  instances of them for ASCII texts, to run the providers on concrete store contents.

  A parsed value is a \<open>json\<close>; a JavaScript string is the list of its code units, a number
  is kept as its literal, an object keeps its members as written. \<open>CHR 0x22\<close> is the
  double quote, \<open>CHR 0x5C\<close> the backslash.
\<close>

type_synonym units = "nat list"

definition units_of :: "string \<Rightarrow> units" where
  "units_of s = map of_char s"

datatype json =
  JNull | JBool bool | JNumber string | JString units | JArray "json list"
  | JObject "(units \<times> json) list"

datatype token =
  LBrace | RBrace | LBracket | RBracket | Colon | Comma | Str units | Atom json

definition is_ws :: "char \<Rightarrow> bool" where
  "is_ws c = (c \<in> set [CHR 0x20, CHR 0x09, CHR 0x0A, CHR 0x0D])"

definition is_digit :: "char \<Rightarrow> bool" where
  "is_digit c = (c \<in> set ''0123456789'')"

text \<open>The characters of the literals \<open>null\<close>, \<open>true\<close>, \<open>false\<close> and of numbers.\<close>

definition is_bare :: "char \<Rightarrow> bool" where
  "is_bare c =
     (c \<in> set ''0123456789+-.abcdefghijklmnopqrstuvwxyzABCDEFGHIJKLMNOPQRSTUVWXYZ'')"

definition punct :: "char \<Rightarrow> token option" where
  "punct c =
     (if c = CHR ''{'' then Some LBrace else if c = CHR ''}'' then Some RBrace
      else if c = CHR ''['' then Some LBracket else if c = CHR '']'' then Some RBracket
      else if c = CHR '':'' then Some Colon else if c = CHR '','' then Some Comma
      else None)"

text \<open>
  The number grammar of JSON: an optional minus, \<open>0\<close> or digits without a leading zero,
  an optional fraction, an optional exponent.
\<close>

definition int_part_ok :: "string \<Rightarrow> bool" where
  "int_part_ok ds = (case ds of [] \<Rightarrow> False | d # r \<Rightarrow> if d = CHR ''0'' then r = [] else True)"

definition after_fraction :: "string \<Rightarrow> string option" where
  "after_fraction r =
     (case r of
        [] \<Rightarrow> Some []
      | c # r' \<Rightarrow>
          if c = CHR ''.''
          then (if takeWhile is_digit r' = [] then None else Some (dropWhile is_digit r'))
          else Some r)"

definition exponent_ok :: "string \<Rightarrow> bool" where
  "exponent_ok r =
     (case r of
        [] \<Rightarrow> True
      | c # r' \<Rightarrow>
          (c = CHR ''e'' \<or> c = CHR ''E'') \<and>
          (let ds = (case r' of
                       [] \<Rightarrow> []
                     | s # r'' \<Rightarrow> if s = CHR ''+'' \<or> s = CHR ''-'' then r'' else r')
           in ds \<noteq> [] \<and> list_all is_digit ds))"

definition is_number :: "string \<Rightarrow> bool" where
  "is_number s =
     (let s1 = (case s of [] \<Rightarrow> [] | c # r \<Rightarrow> if c = CHR ''-'' then r else s)
      in int_part_ok (takeWhile is_digit s1) \<and>
         (case after_fraction (dropWhile is_digit s1) of
            None \<Rightarrow> False
          | Some r \<Rightarrow> exponent_ok r))"

definition bare_token :: "string \<Rightarrow> token option" where
  "bare_token s =
     (if s = ''null'' then Some (Atom JNull)
      else if s = ''true'' then Some (Atom (JBool True))
      else if s = ''false'' then Some (Atom (JBool False))
      else if is_number s then Some (Atom (JNumber s))
      else None)"

definition escape_unit :: "char \<Rightarrow> nat option" where
  "escape_unit c =
     (if c = CHR 0x22 then Some 34 else if c = CHR 0x5C then Some 92
      else if c = CHR ''/'' then Some 47 else if c = CHR ''b'' then Some 8
      else if c = CHR ''f'' then Some 12 else if c = CHR ''n'' then Some 10
      else if c = CHR ''r'' then Some 13 else if c = CHR ''t'' then Some 9
      else None)"

definition hex_val :: "char \<Rightarrow> nat option" where
  "hex_val c =
     map_of (zip ''0123456789abcdefABCDEF''
               [0, 1, 2, 3, 4, 5, 6, 7, 8, 9, 10, 11, 12, 13, 14, 15, 10, 11, 12, 13, 14, 15]) c"

text \<open>
  The lexer reads the text once. Outside strings it skips white space; in a string it
  refuses a raw control character and an unknown escape.
\<close>

datatype mode = Outside | Bare string | InStr units | Esc units | Uni units "nat list"

fun lexer :: "mode \<Rightarrow> string \<Rightarrow> token list option" where
  "lexer Outside [] = Some []"
| "lexer (Bare acc) [] = map_option (\<lambda>t. [t]) (bare_token (rev acc))"
| "lexer (InStr acc) [] = None"
| "lexer (Esc acc) [] = None"
| "lexer (Uni acc ds) [] = None"
| "lexer Outside (c # cs) =
     (if is_ws c then lexer Outside cs
      else if c = CHR 0x22 then lexer (InStr []) cs
      else if is_bare c then lexer (Bare [c]) cs
      else (case punct c of
              Some p \<Rightarrow> map_option (Cons p) (lexer Outside cs)
            | None \<Rightarrow> None))"
| "lexer (Bare acc) (c # cs) =
     (if is_bare c then lexer (Bare (c # acc)) cs
      else (case bare_token (rev acc) of
              None \<Rightarrow> None
            | Some t \<Rightarrow>
                map_option (Cons t)
                  (if is_ws c then lexer Outside cs
                   else if c = CHR 0x22 then lexer (InStr []) cs
                   else (case punct c of
                           Some p \<Rightarrow> map_option (Cons p) (lexer Outside cs)
                         | None \<Rightarrow> None))))"
| "lexer (InStr acc) (c # cs) =
     (if c = CHR 0x22 then map_option (Cons (Str (rev acc))) (lexer Outside cs)
      else if c = CHR 0x5C then lexer (Esc acc) cs
      else if of_char c < (32 :: nat) then None
      else lexer (InStr (of_char c # acc)) cs)"
| "lexer (Esc acc) (c # cs) =
     (case escape_unit c of
        Some n \<Rightarrow> lexer (InStr (n # acc)) cs
      | None \<Rightarrow> if c = CHR ''u'' then lexer (Uni acc []) cs else None)"
| "lexer (Uni acc ds) (c # cs) =
     (case hex_val c of
        None \<Rightarrow> None
      | Some d \<Rightarrow>
          if length ds = 3
          then lexer (InStr (foldl (\<lambda>n h. 16 * n + h) 0 (ds @ [d]) # acc)) cs
          else lexer (Uni acc (ds @ [d])) cs)"

text \<open>
  The parser runs over the tokens with a stack of the open arrays and objects (their
  elements in reverse) and what it expects next.
\<close>

datatype frame = InArray "json list" | InObject "(units \<times> json) list" "units option"

datatype expect = Value | ValueOrClose | KeyOrClose | Key | ColonNext | CommaOrClose | Done json

fun push_value :: "json \<Rightarrow> frame list \<Rightarrow> (expect \<times> frame list) option" where
  "push_value v [] = Some (Done v, [])"
| "push_value v (InArray es # st) = Some (CommaOrClose, InArray (v # es) # st)"
| "push_value v (InObject ms (Some k) # st) =
     Some (CommaOrClose, InObject ((k, v) # ms) None # st)"
| "push_value v (InObject ms None # st) = None"

fun begin_value :: "frame list \<Rightarrow> token \<Rightarrow> (expect \<times> frame list) option" where
  "begin_value st (Atom j) = push_value j st"
| "begin_value st (Str s) = push_value (JString s) st"
| "begin_value st LBracket = Some (ValueOrClose, InArray [] # st)"
| "begin_value st LBrace = Some (KeyOrClose, InObject [] None # st)"
| "begin_value st t = None"

fun step :: "expect \<Rightarrow> frame list \<Rightarrow> token \<Rightarrow> (expect \<times> frame list) option" where
  "step (Done v) st t = None"
| "step Value st t = begin_value st t"
| "step ValueOrClose (InArray es # st) RBracket = push_value (JArray (rev es)) st"
| "step ValueOrClose st t = begin_value st t"
| "step KeyOrClose (InObject ms None # st) RBrace = push_value (JObject (rev ms)) st"
| "step KeyOrClose (InObject ms None # st) (Str k) = Some (ColonNext, InObject ms (Some k) # st)"
| "step KeyOrClose st t = None"
| "step Key (InObject ms None # st) (Str k) = Some (ColonNext, InObject ms (Some k) # st)"
| "step Key st t = None"
| "step ColonNext st Colon = Some (Value, st)"
| "step ColonNext st t = None"
| "step CommaOrClose (InArray es # st) Comma = Some (Value, InArray es # st)"
| "step CommaOrClose (InArray es # st) RBracket = push_value (JArray (rev es)) st"
| "step CommaOrClose (InObject ms None # st) Comma = Some (Key, InObject ms None # st)"
| "step CommaOrClose (InObject ms None # st) RBrace = push_value (JObject (rev ms)) st"
| "step CommaOrClose st t = None"

fun run :: "expect \<Rightarrow> frame list \<Rightarrow> token list \<Rightarrow> json option" where
  "run e st [] = (case e of Done v \<Rightarrow> Some v | _ \<Rightarrow> None)"
| "run e st (t # ts) =
     (case step e st t of None \<Rightarrow> None | Some (e', st') \<Rightarrow> run e' st' ts)"

text \<open>
  \<open>JSON.parse\<close> on an ASCII text, with every JSON value as a possible result: \<open>Throws\<close>
  where the text is not JSON, \<open>Returns None\<close> for \<open>null\<close>.
\<close>

definition JSON_parse_ascii :: "string \<Rightarrow> json parsed" where
  "JSON_parse_ascii s =
     (case Option.bind (lexer Outside s) (run Value []) of
        None \<Rightarrow> Throws
      | Some JNull \<Rightarrow> Returns None
      | Some j \<Rightarrow> Returns (Some j))"

text \<open>
  \<open>JSON.stringify\<close> on a \<open>User\<close>: the members in the order of the mock users, the optional
  ones left out when absent, no white space; in a string the quote, the backslash and the
  control characters are escaped.
\<close>

fun status_string :: "UserStatus \<Rightarrow> string" where
  "status_string active = ''active''"
| "status_string inactive = ''inactive''"
| "status_string pending = ''pending''"

definition hex_digit :: "nat \<Rightarrow> char" where
  "hex_digit n = ''0123456789abcdef'' ! n"

definition escape_char :: "char \<Rightarrow> string" where
  "escape_char c =
     (if c = CHR 0x22 then [CHR 0x5C, CHR 0x22]
      else if c = CHR 0x5C then [CHR 0x5C, CHR 0x5C]
      else if c = CHR 0x08 then [CHR 0x5C, CHR ''b'']
      else if c = CHR 0x09 then [CHR 0x5C, CHR ''t'']
      else if c = CHR 0x0A then [CHR 0x5C, CHR ''n'']
      else if c = CHR 0x0C then [CHR 0x5C, CHR ''f'']
      else if c = CHR 0x0D then [CHR 0x5C, CHR ''r'']
      else if of_char c < (32 :: nat)
        then [CHR 0x5C, CHR ''u'', CHR ''0'', CHR ''0'',
              hex_digit (of_char c div 16), hex_digit (of_char c mod 16)]
      else [c])"

definition json_quote :: "string \<Rightarrow> string" where
  "json_quote s = CHR 0x22 # concat (map escape_char s) @ [CHR 0x22]"

definition json_member :: "string \<Rightarrow> string \<Rightarrow> string" where
  "json_member k v = json_quote k @ '':'' @ json_quote v"

fun json_members :: "(string \<times> string) list \<Rightarrow> string" where
  "json_members [] = []"
| "json_members [(k, v)] = json_member k v"
| "json_members ((k, v) # kvs) = json_member k v @ '','' @ json_members kvs"

definition optional_member :: "string \<Rightarrow> string option \<Rightarrow> (string \<times> string) list" where
  "optional_member k v = (case v of None \<Rightarrow> [] | Some s \<Rightarrow> [(k, s)])"

definition user_members :: "User \<Rightarrow> (string \<times> string) list" where
  "user_members u =
     [(''id'', u_id u), (''email'', email u), (''name'', u_name u),
      (''role'', role_string (role u)), (''tenantId'', tenantId u)]
     @ optional_member ''avatarUrl'' (avatarUrl u)
     @ [(''createdAt'', u_createdAt u)]
     @ optional_member ''lastLoginAt'' (lastLoginAt u)
     @ [(''status'', status_string (status u))]"

definition ref_stringify :: "User \<Rightarrow> string" where
  "ref_stringify u = ''{'' @ json_members (user_members u) @ ''}''"

text \<open>
  The cast \<open>as User\<close> seen from the type \<open>User\<close>: an object with the members of a \<open>User\<close>
  (a later duplicate of a key wins, as in \<open>JSON.parse\<close>) is that user.
\<close>

definition string_of_units :: "units \<Rightarrow> string option" where
  "string_of_units ns = (if list_all (\<lambda>n. n < 256) ns then Some (map char_of ns) else None)"

definition string_member :: "(units \<times> json) list \<Rightarrow> string \<Rightarrow> string option" where
  "string_member ms k =
     (case map_of (rev ms) (units_of k) of
        Some (JString v) \<Rightarrow> string_of_units v
      | _ \<Rightarrow> None)"

definition optional_string_member ::
  "(units \<times> json) list \<Rightarrow> string \<Rightarrow> string option option" where
  "optional_string_member ms k =
     (case map_of (rev ms) (units_of k) of
        None \<Rightarrow> Some None
      | Some (JString v) \<Rightarrow> map_option Some (string_of_units v)
      | Some _ \<Rightarrow> None)"

definition parse_role :: "string \<Rightarrow> UserRole option" where
  "parse_role s =
     (if s = ''super_admin'' then Some super_admin
      else if s = ''org_admin'' then Some org_admin
      else if s = ''member'' then Some member else None)"

definition parse_status :: "string \<Rightarrow> UserStatus option" where
  "parse_status s =
     (if s = ''active'' then Some active
      else if s = ''inactive'' then Some inactive
      else if s = ''pending'' then Some pending else None)"

definition user_of_json :: "json \<Rightarrow> User option" where
  "user_of_json j =
     (case j of
        JObject ms \<Rightarrow>
          (case (string_member ms ''id'', string_member ms ''email'', string_member ms ''name'',
                 Option.bind (string_member ms ''role'') parse_role,
                 string_member ms ''tenantId'', optional_string_member ms ''avatarUrl'',
                 string_member ms ''createdAt'', optional_string_member ms ''lastLoginAt'',
                 Option.bind (string_member ms ''status'') parse_status) of
             (Some i, Some e, Some n, Some r, Some t, Some a, Some c, Some l, Some s) \<Rightarrow>
               Some \<lparr>u_id = i, email = e, u_name = n, role = r, tenantId = t, avatarUrl = a,
                     u_createdAt = c, lastLoginAt = l, status = s\<rparr>
           | _ \<Rightarrow> None)
      | _ \<Rightarrow> None)"

text \<open>
  \<open>JSON.parse\<close> at the type \<open>User\<close>. It stands for \<open>JSON.parse\<close> on the texts whose value
  the type has, \<open>null\<close> and the text of a \<open>User\<close>, and on the texts that are not JSON. A
  text with any other value (\<open>42\<close>, \<open>{}\<close>) has no result of this type: \<open>ref_parse\<close> answers
  \<open>Throws\<close> there, which \<open>JSON.parse\<close> does not, and is not to be used on such a text; the
  instance \<open>JSON_parse_ascii\<close> at the type \<open>json\<close> has the result for every text.
\<close>

definition ref_parse :: "string \<Rightarrow> User parsed" where
  "ref_parse s =
     (case JSON_parse_ascii s of
        Throws \<Rightarrow> Throws
      | Returns None \<Rightarrow> Returns None
      | Returns (Some j) \<Rightarrow>
          (case user_of_json j of Some u \<Rightarrow> Returns (Some u) | None \<Rightarrow> Throws))"

section \<open>Reachable authentication states, example data\<close>

text \<open>
  The states that \<open>AuthProvider\<close> can be in: the initial one, and what its three
  operations make of a reachable one, whatever the collaborators answer and whatever
  \<open>localStorage\<close> holds meanwhile.
\<close>

inductive auth_reachable :: "User AuthState \<times> Storage \<Rightarrow> bool" where
  reach_init: "auth_reachable (initialAuthState, ls)"
| reach_storage: "auth_reachable (a, ls) \<Longrightarrow> auth_reachable (a, ls')"
| reach_restore: "auth_reachable s \<Longrightarrow> auth_reachable (AuthProvider_restore JSON_parse s)"
| reach_login:
    "auth_reachable s \<Longrightarrow> auth_reachable (snd (login JSON_stringify api_login r tid s))"
| reach_logout: "auth_reachable s \<Longrightarrow> auth_reachable (snd (logout api_logout s))"

text \<open>The three tenants and two of the users of the mock data, and a tenant with an empty id.\<close>

definition T1 :: Tenant where
  "T1 = \<lparr>t_id = ''tenant-1'', t_name = ''Acme Corporation'', slug = ''acme'', logoUrl = None,
         t_createdAt = ''2024-01-15T10:00:00Z''\<rparr>"

definition T2 :: Tenant where
  "T2 = \<lparr>t_id = ''tenant-2'', t_name = ''TechStart Inc'', slug = ''techstart'', logoUrl = None,
         t_createdAt = ''2024-02-20T14:30:00Z''\<rparr>"

definition T3 :: Tenant where
  "T3 = \<lparr>t_id = ''tenant-3'', t_name = ''Global Dynamics'', slug = ''global-dynamics'',
         logoUrl = None, t_createdAt = ''2024-03-10T09:15:00Z''\<rparr>"

definition T_blank :: Tenant where
  "T_blank = \<lparr>t_id = [], t_name = ''Blank'', slug = ''blank'', logoUrl = None,
              t_createdAt = ''2024-04-01T00:00:00Z''\<rparr>"

definition sarah :: User where
  "sarah = \<lparr>u_id = ''user-1'', email = ''superadmin@platform.com'', u_name = ''Sarah Chen'',
            role = super_admin, tenantId = ''tenant-1'', avatarUrl = None,
            u_createdAt = ''2024-01-15T10:00:00Z'', lastLoginAt = Some ''2024-12-22T08:30:00Z'',
            status = active\<rparr>"

definition david :: User where
  "david = \<lparr>u_id = ''user-4'', email = ''admin@techstart.com'', u_name = ''David Kim'',
            role = org_admin, tenantId = ''tenant-2'', avatarUrl = None,
            u_createdAt = ''2024-02-20T14:30:00Z'', lastLoginAt = Some ''2024-12-19T10:00:00Z'',
            status = active\<rparr>"

definition signedIn :: "User \<Rightarrow> User AuthState" where
  "signedIn u = \<lparr>user = Some u, isAuthenticated = True, isLoading = False\<rparr>"

definition noon :: Clock where
  "noon = \<lparr>Date_now = 1735732800000, createdAt_iso = ''2025-01-01T12:00:00.000Z'',
           lastLoginAt_iso = ''2025-01-01T12:00:00.001Z''\<rparr>"

section \<open>Role policy\<close>

lemma tenantsApi_getAll_eq: "tenantsApi_getAll = Inr [T1, T2, T3]"
  by (simp add: tenantsApi_getAll_def mockTenants_def T1_def T2_def T3_def)

lemma Unauthorized_neq_TenantNotFound: "Unauthorized \<noteq> TenantNotFound"
  by (simp add: Unauthorized_def TenantNotFound_def)

text \<open>
  C5. For every role, the permission set of \<open>getPermissions\<close> has \<open>canViewAllTenants\<close>
  whenever it has \<open>canSwitchTenants\<close>.
\<close>

theorem canSwitch_implies_canViewAll:
  "canSwitchTenants (getPermissions r) \<longrightarrow> canViewAllTenants (getPermissions r)"
  by (cases r) simp_all

theorem canSwitch_implies_canViewAll_witness:
  "canSwitchTenants (getPermissions super_admin) \<and> canViewAllTenants (getPermissions super_admin)"
  using canSwitch_implies_canViewAll [of super_admin] by simp

text \<open>
  C3. \<open>canAccessRoute\<close> looks the path up in the navigation catalog by equality of
  strings: for an entry of the catalog with that path the answer is whether the role is
  among the entry's \<open>requiredRoles\<close>; for a path that no entry has the answer is true. For
  \<open>/dashboard/users\<close> the answer is true exactly for \<open>super_admin\<close> and \<open>org_admin\<close>, so
  false for \<open>member\<close>.
\<close>

theorem canAccessRoute_catalog:
  "(\<forall>item \<in> set navigationItems.
      path item = p \<longrightarrow> canAccessRoute r p = (r \<in> set (requiredRoles item)))
   \<and> (p \<notin> path ` set navigationItems \<longrightarrow> canAccessRoute r p)
   \<and> canAccessRoute r ''/dashboard/users'' = (r = super_admin \<or> r = org_admin)
   \<and> \<not> canAccessRoute member ''/dashboard/users''"
proof -
  have found: "\<forall>item \<in> set navigationItems.
      path item = p \<longrightarrow> canAccessRoute r p = (r \<in> set (requiredRoles item))"
    by (auto simp: canAccessRoute_def navigationItems_def array_includes_def)
  have unlisted: "p \<notin> path ` set navigationItems \<longrightarrow> canAccessRoute r p"
    by (auto simp: canAccessRoute_def find_Some_iff split: option.splits)
  have users: "canAccessRoute r ''/dashboard/users'' = (r = super_admin \<or> r = org_admin)"
    by (cases r) (simp_all add: canAccessRoute_def navigationItems_def array_includes_def)
  have no_member: "\<not> canAccessRoute member ''/dashboard/users''"
    by (simp add: canAccessRoute_def navigationItems_def array_includes_def)
  from found unlisted users no_member show ?thesis
    by simp
qed

theorem canAccessRoute_catalog_witness:
  "canAccessRoute org_admin ''/dashboard/settings''
   \<and> \<not> canAccessRoute member ''/dashboard/settings''
   \<and> canAccessRoute member ''/dashboard/reports''"
  using canAccessRoute_catalog [of "''/dashboard/settings''" org_admin]
    canAccessRoute_catalog [of "''/dashboard/settings''" member]
    canAccessRoute_catalog [of "''/dashboard/reports''" member]
  by (simp add: navigationItems_def)

section \<open>Route guard\<close>

lemma restore_keeps_user:
  "(\<not> isAuthenticated a \<longrightarrow> user a = None) \<Longrightarrow>
   \<not> isAuthenticated (fst (AuthProvider_restore JSON_parse (a, ls))) \<Longrightarrow>
   user (fst (AuthProvider_restore JSON_parse (a, ls))) = None"
  by (auto simp: AuthProvider_restore_def Let_def split: if_splits option.splits parsed.splits)

lemma login_keeps_user:
  "(\<not> isAuthenticated a \<longrightarrow> user a = None) \<Longrightarrow>
   \<not> isAuthenticated (fst (snd (login JSON_stringify api_login r tid (a, ls)))) \<Longrightarrow>
   user (fst (snd (login JSON_stringify api_login r tid (a, ls)))) = None"
  by (auto simp: login_def Let_def split: sum.splits)

lemma logout_keeps_user:
  "(\<not> isAuthenticated a \<longrightarrow> user a = None) \<Longrightarrow>
   \<not> isAuthenticated (fst (snd (logout api_logout (a, ls)))) \<Longrightarrow>
   user (fst (snd (logout api_logout (a, ls)))) = None"
  by (auto simp: logout_def split: sum.splits)

lemma auth_reachable_user:
  "auth_reachable s \<Longrightarrow> \<not> isAuthenticated (fst s) \<longrightarrow> user (fst s) = None"
proof (induction rule: auth_reachable.induct)
  case (reach_init ls)
  show ?case by (simp add: initialAuthState_def)
next
  case (reach_storage a ls ls')
  then show ?case by simp
next
  case (reach_restore s JSON_parse)
  obtain a ls where s: "s = (a, ls)" by (cases s)
  with reach_restore.IH show ?case
    using restore_keeps_user [of a JSON_parse ls] by simp
next
  case (reach_login s JSON_stringify api_login r tid)
  obtain a ls where s: "s = (a, ls)" by (cases s)
  with reach_login.IH show ?case
    using login_keeps_user [of a JSON_stringify api_login r tid ls] by simp
next
  case (reach_logout s api_logout)
  obtain a ls where s: "s = (a, ls)" by (cases s)
  with reach_logout.IH show ?case
    using logout_keeps_user [of a api_logout ls] by simp
qed

text \<open>
  C2. \<open>ProtectedRoute\<close> decides in this order, on every snapshot of its inputs: the loading
  view while the authentication context or the tenant context is loading; else the
  redirect to the sign-in page when the session is anonymous (no user, or not
  authenticated; by \<open>auth_reachable_user\<close> a reachable session that is not authenticated
  has no user); else the unauthorized view when \<open>requiredRoles\<close> is passed and does not
  contain the user's role; else the unauthorized view when \<open>canAccessRoute\<close> is false for
  the role and the requested path; else the children. The result is a function of these
  inputs alone.
\<close>

theorem ProtectedRoute_decision:
  "ProtectedRoute auth tenant required pathname =
     (if isLoading auth \<or> t_isLoading tenant then LoadingView
      else if \<not> isAuthenticated auth \<or> user auth = None then NavigateToLogin
      else if \<exists>rs. required = Some rs \<and> role (the (user auth)) \<notin> set rs
        then UnauthorizedFallback
      else if \<not> canAccessRoute (role (the (user auth))) pathname then UnauthorizedFallback
      else Children)"
  by (cases "user auth"; cases required)
     (simp_all add: ProtectedRoute_def array_includes_def)

theorem ProtectedRoute_decision_witness:
  "ProtectedRoute (signedIn david) \<lparr>currentTenant = Some T2, availableTenants = [],
       t_isLoading = False\<rparr> (Some [super_admin]) ''/dashboard/users'' = UnauthorizedFallback
   \<and> ProtectedRoute (signedIn david) \<lparr>currentTenant = Some T2, availableTenants = [],
       t_isLoading = False\<rparr> None ''/dashboard/settings'' = Children
   \<and> ProtectedRoute \<lparr>user = None, isAuthenticated = False, isLoading = False\<rparr>
       \<lparr>currentTenant = None, availableTenants = [], t_isLoading = False\<rparr>
       None ''/dashboard'' = NavigateToLogin
   \<and> ProtectedRoute initialAuthState initialTenantState None ''/dashboard'' = LoadingView"
proof -
  have settings: "canAccessRoute org_admin ''/dashboard/settings''"
    by (simp add: canAccessRoute_def navigationItems_def array_includes_def)
  show ?thesis
    using settings
      ProtectedRoute_decision [of "signedIn david" "\<lparr>currentTenant = Some T2,
        availableTenants = [], t_isLoading = False\<rparr>" "Some [super_admin]" "''/dashboard/users''"]
      ProtectedRoute_decision [of "signedIn david" "\<lparr>currentTenant = Some T2,
        availableTenants = [], t_isLoading = False\<rparr>" None "''/dashboard/settings''"]
      ProtectedRoute_decision [of "\<lparr>user = None, isAuthenticated = False, isLoading = False\<rparr>"
        "\<lparr>currentTenant = None, availableTenants = [], t_isLoading = False\<rparr>"
        None "''/dashboard''"]
      ProtectedRoute_decision [of initialAuthState initialTenantState None "''/dashboard''"]
    by (simp add: signedIn_def david_def initialAuthState_def initialTenantState_def)
qed

section \<open>Tenant scope\<close>

lemma find_id_cases:
  "(tid \<notin> t_id ` set ts \<longrightarrow> find (\<lambda>t. t_id t = tid) ts = None)
   \<and> (tid \<in> t_id ` set ts \<longrightarrow> (\<exists>t \<in> set ts. t_id t = tid \<and> find (\<lambda>t. t_id t = tid) ts = Some t))"
  by (induction ts) auto

text \<open>
  C1. \<open>switchTenant\<close>: for a user whose role lacks \<open>canSwitchTenants\<close> (an \<open>org_admin\<close> or a
  \<open>member\<close>) every call fails with \<open>Unauthorized\<close>, whatever the argument, and leaves the
  tenant state and the store as they were. For a \<open>super_admin\<close> the call fails with
  \<open>TenantNotFound\<close>, state and store unchanged, when the id is the id of no member of
  \<open>availableTenants\<close>; otherwise it sets \<open>currentTenant\<close> to the (first) available tenant
  with that id and writes the id to the store. The two errors differ.
\<close>

theorem switchTenant_outcomes:
  "(\<not> canSwitchTenants (getPermissions (role u)) \<longrightarrow>
      switchTenant (Some u) tid (st, ls) = (Inl Unauthorized, st, ls))
   \<and> (role u = super_admin \<and> tid \<notin> t_id ` set (availableTenants st) \<longrightarrow>
      switchTenant (Some u) tid (st, ls) = (Inl TenantNotFound, st, ls))
   \<and> (role u = super_admin \<and> tid \<in> t_id ` set (availableTenants st) \<longrightarrow>
      (\<exists>t \<in> set (availableTenants st).
         t_id t = tid \<and> find (\<lambda>t. t_id t = tid) (availableTenants st) = Some t \<and>
         switchTenant (Some u) tid (st, ls) =
           (Inr (), st\<lparr>currentTenant := Some t\<rparr>, ls(TENANT_STORAGE_KEY \<mapsto> t_id t))))
   \<and> Unauthorized \<noteq> TenantNotFound"
proof -
  have denied: "\<not> canSwitchTenants (getPermissions (role u)) \<longrightarrow>
      switchTenant (Some u) tid (st, ls) = (Inl Unauthorized, st, ls)"
    by (cases "role u") (simp_all add: switchTenant_def)
  have absent: "role u = super_admin \<and> tid \<notin> t_id ` set (availableTenants st) \<longrightarrow>
      switchTenant (Some u) tid (st, ls) = (Inl TenantNotFound, st, ls)"
    using find_id_cases [of tid "availableTenants st"]
    by (simp add: switchTenant_def)
  have present: "role u = super_admin \<and> tid \<in> t_id ` set (availableTenants st) \<longrightarrow>
      (\<exists>t \<in> set (availableTenants st).
         t_id t = tid \<and> find (\<lambda>t. t_id t = tid) (availableTenants st) = Some t \<and>
         switchTenant (Some u) tid (st, ls) =
           (Inr (), st\<lparr>currentTenant := Some t\<rparr>, ls(TENANT_STORAGE_KEY \<mapsto> t_id t)))"
    using find_id_cases [of tid "availableTenants st"]
    by (auto simp: switchTenant_def)
  from denied absent present Unauthorized_neq_TenantNotFound show ?thesis
    by blast
qed

theorem switchTenant_outcomes_witness:
  "switchTenant (Some sarah) ''tenant-2''
     (\<lparr>currentTenant = Some T1, availableTenants = [T1, T2, T3], t_isLoading = False\<rparr>, Map.empty)
   = (Inr (), \<lparr>currentTenant = Some T2, availableTenants = [T1, T2, T3], t_isLoading = False\<rparr>,
      [TENANT_STORAGE_KEY \<mapsto> ''tenant-2''])
   \<and> switchTenant (Some sarah) ''tenant-9''
     (\<lparr>currentTenant = Some T1, availableTenants = [T1, T2, T3], t_isLoading = False\<rparr>, Map.empty)
   = (Inl TenantNotFound,
      \<lparr>currentTenant = Some T1, availableTenants = [T1, T2, T3], t_isLoading = False\<rparr>, Map.empty)
   \<and> switchTenant (Some david) ''tenant-1''
     (\<lparr>currentTenant = Some T2, availableTenants = [], t_isLoading = False\<rparr>, Map.empty)
   = (Inl Unauthorized,
      \<lparr>currentTenant = Some T2, availableTenants = [], t_isLoading = False\<rparr>, Map.empty)"
proof -
  let ?st = "\<lparr>currentTenant = Some T1, availableTenants = [T1, T2, T3], t_isLoading = False\<rparr>"
  let ?pinned = "\<lparr>currentTenant = Some T2, availableTenants = [], t_isLoading = False\<rparr>"
  have ids: "t_id T1 = ''tenant-1''" "t_id T2 = ''tenant-2''" "t_id T3 = ''tenant-3''"
    by (simp_all add: T1_def T2_def T3_def)
  have roles: "role sarah = super_admin" "role david = org_admin"
    by (simp_all add: sarah_def david_def)
  have a: "switchTenant (Some sarah) ''tenant-2'' (?st, Map.empty)
      = (Inr (), ?st\<lparr>currentTenant := Some T2\<rparr>, [TENANT_STORAGE_KEY \<mapsto> ''tenant-2''])"
    using switchTenant_outcomes [of sarah "''tenant-2''" ?st Map.empty] ids roles
    by auto
  have b: "switchTenant (Some sarah) ''tenant-9'' (?st, Map.empty) = (Inl TenantNotFound, ?st, Map.empty)"
    using switchTenant_outcomes [of sarah "''tenant-9''" ?st Map.empty] ids roles
    by simp
  have c: "switchTenant (Some david) ''tenant-1'' (?pinned, Map.empty) = (Inl Unauthorized, ?pinned, Map.empty)"
    using switchTenant_outcomes [of david "''tenant-1''" ?pinned Map.empty] roles
    by simp
  from a b c show ?thesis by simp
qed

text \<open>
  C4, as amended. Recompute of the tenant scope for a signed-in user and a fetched
  catalog. A role that cannot switch tenants gets no \<open>availableTenants\<close> and, as
  \<open>currentTenant\<close>, the catalog entry whose id is the user's \<open>tenantId\<close>, or none. A role
  that can switch gets the whole catalog in its order and, as \<open>currentTenant\<close>, the entry
  whose id is the stored choice if that id is a non-empty string and occurs in the
  catalog, else the first entry, else none for the empty catalog; the id of a resolved
  \<open>currentTenant\<close> is written back to the store.
\<close>

theorem loadTenants_recompute:
  assumes "isAuthenticated auth" and "user auth = Some u"
  shows "(\<not> canSwitchTenants (getPermissions (role u)) \<longrightarrow>
            fst (loadTenants auth (Inr tenants) (prev, ls)) =
              \<lparr>currentTenant = find (\<lambda>t. t_id t = tenantId u) tenants,
               availableTenants = [], t_isLoading = False\<rparr>)
         \<and> (canSwitchTenants (getPermissions (role u)) \<longrightarrow>
            (let current =
               (case ls TENANT_STORAGE_KEY of
                  None \<Rightarrow> index0 tenants
                | Some sid \<Rightarrow>
                    if sid \<noteq> [] \<and> sid \<in> t_id ` set tenants
                    then find (\<lambda>t. t_id t = sid) tenants
                    else index0 tenants)
             in loadTenants auth (Inr tenants) (prev, ls) =
                  (\<lparr>currentTenant = current, availableTenants = tenants, t_isLoading = False\<rparr>,
                   case current of
                     None \<Rightarrow> ls
                   | Some t \<Rightarrow> ls(TENANT_STORAGE_KEY \<mapsto> t_id t))))
         \<and> index0 tenants = (if tenants = [] then None else Some (hd tenants))"
proof -
  have pinned: "\<not> canSwitchTenants (getPermissions (role u)) \<longrightarrow>
            fst (loadTenants auth (Inr tenants) (prev, ls)) =
              \<lparr>currentTenant = find (\<lambda>t. t_id t = tenantId u) tenants,
               availableTenants = [], t_isLoading = False\<rparr>"
    using assms
    by (cases "role u") (auto simp: loadTenants_def Let_def or_else_def split: option.splits)
  have switching: "canSwitchTenants (getPermissions (role u)) \<longrightarrow>
            (let current =
               (case ls TENANT_STORAGE_KEY of
                  None \<Rightarrow> index0 tenants
                | Some sid \<Rightarrow>
                    if sid \<noteq> [] \<and> sid \<in> t_id ` set tenants
                    then find (\<lambda>t. t_id t = sid) tenants
                    else index0 tenants)
             in loadTenants auth (Inr tenants) (prev, ls) =
                  (\<lparr>currentTenant = current, availableTenants = tenants, t_isLoading = False\<rparr>,
                   case current of
                     None \<Rightarrow> ls
                   | Some t \<Rightarrow> ls(TENANT_STORAGE_KEY \<mapsto> t_id t)))"
  proof (cases "ls TENANT_STORAGE_KEY")
    case None
    with assms show ?thesis
      by (cases "role u") (simp_all add: loadTenants_def Let_def truthy_def)
  next
    case (Some sid)
    have eq: "(\<lambda>t. Some (t_id t) = Some sid) = (\<lambda>t. t_id t = sid)"
      by auto
    from Some assms show ?thesis
      using find_id_cases [of sid tenants]
      by (cases "role u") (auto simp: loadTenants_def Let_def truthy_def or_else_def eq)
  qed
  have first: "index0 tenants = (if tenants = [] then None else Some (hd tenants))"
    by (cases tenants) (simp_all add: index0_def)
  from pinned switching first show ?thesis
    by blast
qed

theorem loadTenants_recompute_witness:
  "fst (loadTenants (signedIn david) (Inr [T1, T2, T3]) (initialTenantState, Map.empty))
     = \<lparr>currentTenant = Some T2, availableTenants = [], t_isLoading = False\<rparr>
   \<and> loadTenants (signedIn sarah) (Inr [T1, T2, T3])
         (initialTenantState, [TENANT_STORAGE_KEY \<mapsto> ''tenant-3''])
     = (\<lparr>currentTenant = Some T3, availableTenants = [T1, T2, T3], t_isLoading = False\<rparr>,
        [TENANT_STORAGE_KEY \<mapsto> ''tenant-3''])
   \<and> loadTenants (signedIn sarah) (Inr [T1, T2, T3])
         (initialTenantState, [TENANT_STORAGE_KEY \<mapsto> ''tenant-9''])
     = (\<lparr>currentTenant = Some T1, availableTenants = [T1, T2, T3], t_isLoading = False\<rparr>,
        [TENANT_STORAGE_KEY \<mapsto> ''tenant-1''])
   \<and> loadTenants (signedIn sarah) (Inr []) (initialTenantState, Map.empty)
     = (\<lparr>currentTenant = None, availableTenants = [], t_isLoading = False\<rparr>, Map.empty)"
proof -
  have ids: "t_id T1 = ''tenant-1''" "t_id T2 = ''tenant-2''" "t_id T3 = ''tenant-3''"
    by (simp_all add: T1_def T2_def T3_def)
  have d: "isAuthenticated (signedIn david)" "user (signedIn david) = Some david"
    "role david = org_admin" "tenantId david = ''tenant-2''"
    by (simp_all add: signedIn_def david_def)
  have s: "isAuthenticated (signedIn sarah)" "user (signedIn sarah) = Some sarah"
    "role sarah = super_admin"
    by (simp_all add: signedIn_def sarah_def)
  have a: "fst (loadTenants (signedIn david) (Inr [T1, T2, T3]) (initialTenantState, Map.empty))
     = \<lparr>currentTenant = Some T2, availableTenants = [], t_isLoading = False\<rparr>"
    using loadTenants_recompute [OF d(1) d(2), of "[T1, T2, T3]" initialTenantState Map.empty]
    by (simp add: d ids)
  have b: "loadTenants (signedIn sarah) (Inr [T1, T2, T3])
         (initialTenantState, [TENANT_STORAGE_KEY \<mapsto> ''tenant-3''])
     = (\<lparr>currentTenant = Some T3, availableTenants = [T1, T2, T3], t_isLoading = False\<rparr>,
        [TENANT_STORAGE_KEY \<mapsto> ''tenant-3''])"
    using loadTenants_recompute [OF s(1) s(2), of "[T1, T2, T3]" initialTenantState
        "[TENANT_STORAGE_KEY \<mapsto> ''tenant-3'']"]
    by (simp add: s ids Let_def)
  have c: "loadTenants (signedIn sarah) (Inr [T1, T2, T3])
         (initialTenantState, [TENANT_STORAGE_KEY \<mapsto> ''tenant-9''])
     = (\<lparr>currentTenant = Some T1, availableTenants = [T1, T2, T3], t_isLoading = False\<rparr>,
        [TENANT_STORAGE_KEY \<mapsto> ''tenant-1''])"
    using loadTenants_recompute [OF s(1) s(2), of "[T1, T2, T3]" initialTenantState
        "[TENANT_STORAGE_KEY \<mapsto> ''tenant-9'']"]
    by (simp add: s ids Let_def)
  have e: "loadTenants (signedIn sarah) (Inr []) (initialTenantState, Map.empty)
     = (\<lparr>currentTenant = None, availableTenants = [], t_isLoading = False\<rparr>, Map.empty)"
    using loadTenants_recompute [OF s(1) s(2), of "[]" initialTenantState Map.empty]
    by (simp add: s Let_def)
  from a b c e show ?thesis by simp
qed

text \<open>
  C4 as stated, without "non-empty", fails. The catalog \<open>[T1, T_blank]\<close> has the entry
  \<open>T_blank\<close> with the empty id; \<open>switchTenant\<close> to it stores the empty string as the choice.
  On the next recompute the entry with the stored id is still in the catalog, but
  \<open>storedTenantId ? _ : _\<close> takes the empty string for no choice and \<open>currentTenant\<close>
  becomes the first entry \<open>T1\<close>.
\<close>

theorem loadTenants_blank_id_counterexample:
  "t_id T_blank = [] \<and> T_blank \<in> set [T1, T_blank] \<and> T1 \<noteq> T_blank
   \<and> snd (snd (switchTenant (Some sarah) []
         (\<lparr>currentTenant = Some T1, availableTenants = [T1, T_blank], t_isLoading = False\<rparr>,
          Map.empty))) TENANT_STORAGE_KEY = Some []
   \<and> currentTenant (fst (loadTenants (signedIn sarah) (Inr [T1, T_blank])
         (initialTenantState, [TENANT_STORAGE_KEY \<mapsto> []]))) = Some T1"
  by (simp add: loadTenants_def switchTenant_def signedIn_def sarah_def T1_def T_blank_def
      truthy_def index0_def or_else_def)

text \<open>
  C6, as amended. \<open>refreshTenants\<close> replaces \<open>availableTenants\<close> by the fetched catalog and
  leaves \<open>currentTenant\<close> (and the loading flag) as they were, in every case; a rejected
  fetch changes nothing.
\<close>

theorem refreshTenants_keeps_current:
  "refreshTenants (Inr tenants) prev = (Inr (), prev\<lparr>availableTenants := tenants\<rparr>)
   \<and> availableTenants (snd (refreshTenants (Inr tenants) prev)) = tenants
   \<and> currentTenant (snd (refreshTenants (Inr tenants) prev)) = currentTenant prev
   \<and> t_isLoading (snd (refreshTenants (Inr tenants) prev)) = t_isLoading prev
   \<and> refreshTenants (Inl e) prev = (Inl e, prev)"
  by (simp add: refreshTenants_def)

text \<open>
  C6 as stated fails: there is no fallback. With \<open>currentTenant = T1\<close> and the refreshed
  catalog \<open>[T2, T3]\<close>, which has lost \<open>T1\<close>, \<open>currentTenant\<close> stays \<open>T1\<close> and does not become the
  first entry \<open>T2\<close>.
\<close>

theorem refreshTenants_stale_current_counterexample:
  "currentTenant (snd (refreshTenants (Inr [T2, T3])
      \<lparr>currentTenant = Some T1, availableTenants = [T1, T2, T3], t_isLoading = False\<rparr>)) = Some T1
   \<and> T1 \<notin> set [T2, T3] \<and> index0 [T2, T3] = Some T2 \<and> T2 \<noteq> T1"
  by (simp add: refreshTenants_def index0_def T1_def T2_def T3_def)

section \<open>The reference codec on concrete texts\<close>






lemma ref_parse_null: "ref_parse ''null'' = Returns None"
  by code_simp

lemma ref_stringify_david:
  "ref_stringify david =
     ''{'' @ [CHR 0x22] @ ''id'' @ [CHR 0x22] @ '':'' @ [CHR 0x22] @ ''user-4'' @ [CHR 0x22]
     @ '','' @ [CHR 0x22] @ ''email'' @ [CHR 0x22] @ '':'' @ [CHR 0x22] @ ''admin@techstart.com''
     @ [CHR 0x22] @ '','' @ [CHR 0x22] @ ''name'' @ [CHR 0x22] @ '':'' @ [CHR 0x22]
     @ ''David Kim'' @ [CHR 0x22] @ '','' @ [CHR 0x22] @ ''role'' @ [CHR 0x22] @ '':''
     @ [CHR 0x22] @ ''org_admin'' @ [CHR 0x22] @ '','' @ [CHR 0x22] @ ''tenantId'' @ [CHR 0x22]
     @ '':'' @ [CHR 0x22] @ ''tenant-2'' @ [CHR 0x22] @ '','' @ [CHR 0x22] @ ''createdAt''
     @ [CHR 0x22] @ '':'' @ [CHR 0x22] @ ''2024-02-20T14:30:00Z'' @ [CHR 0x22] @ '',''
     @ [CHR 0x22] @ ''lastLoginAt'' @ [CHR 0x22] @ '':'' @ [CHR 0x22] @ ''2024-12-19T10:00:00Z''
     @ [CHR 0x22] @ '','' @ [CHR 0x22] @ ''status'' @ [CHR 0x22] @ '':'' @ [CHR 0x22]
     @ ''active'' @ [CHR 0x22] @ ''}''"
  by code_simp

lemma ref_stringify_nonempty: "ref_stringify u \<noteq> []"
  by (simp add: ref_stringify_def)

section \<open>The reference codec reads back every user it wrote\<close>

lemma hex_val_hex_digit: "m < 16 \<Longrightarrow> hex_val (hex_digit m) = Some m"
proof -
  assume "m < 16"
  then have "m = 0 \<or> m = 1 \<or> m = 2 \<or> m = 3 \<or> m = 4 \<or> m = 5 \<or> m = 6 \<or> m = 7 \<or> m = 8
      \<or> m = 9 \<or> m = 10 \<or> m = 11 \<or> m = 12 \<or> m = 13 \<or> m = 14 \<or> m = 15"
    by arith
  then show ?thesis
    by (elim disjE) (simp_all add: hex_digit_def hex_val_def)
qed

lemma lexer_escape_char:
  "lexer (InStr acc) (escape_char c @ rest) = lexer (InStr (of_char c # acc)) rest"
proof -
  consider (named) "c \<in> {CHR 0x22, CHR 0x5C, CHR 0x08, CHR 0x09, CHR 0x0A, CHR 0x0C, CHR 0x0D}"
    | (control) "c \<notin> {CHR 0x22, CHR 0x5C, CHR 0x08, CHR 0x09, CHR 0x0A, CHR 0x0C, CHR 0x0D}"
        "of_char c < (32 :: nat)"
    | (plain) "c \<notin> {CHR 0x22, CHR 0x5C, CHR 0x08, CHR 0x09, CHR 0x0A, CHR 0x0C, CHR 0x0D}"
        "\<not> of_char c < (32 :: nat)"
    by blast
  then show ?thesis
  proof cases
    case named
    then show ?thesis
      by (auto simp: escape_char_def escape_unit_def)
  next
    case control
    let ?n = "of_char c :: nat"
    have hi: "?n div 16 < 16" and lo: "?n mod 16 < 16"
      using control(2) by simp_all
    have esc: "escape_char c = [CHR 0x5C, CHR ''u'', CHR ''0'', CHR ''0'',
        hex_digit (?n div 16), hex_digit (?n mod 16)]"
      using control by (simp add: escape_char_def)
    have zero: "hex_val CHR ''0'' = Some 0"
      by (simp add: hex_val_def)
    show ?thesis
      by (simp add: esc escape_unit_def zero hex_val_hex_digit [OF hi] hex_val_hex_digit [OF lo])
  next
    case plain
    then show ?thesis
      by (simp add: escape_char_def)
  qed
qed

lemma lexer_escaped:
  "lexer (InStr acc) (concat (map escape_char s) @ CHR 0x22 # rest) =
     map_option (Cons (Str (rev acc @ units_of s))) (lexer Outside rest)"
  by (induction s arbitrary: acc) (simp_all add: lexer_escape_char units_of_def)

lemma lexer_quote:
  "lexer Outside (json_quote s @ rest) =
     map_option (Cons (Str (units_of s))) (lexer Outside rest)"
  using lexer_escaped [of "[]" s rest]
  by (simp add: json_quote_def is_ws_def)

lemma lexer_member:
  "lexer Outside (json_member k v @ rest) =
     map_option (\<lambda>ts. Str (units_of k) # Colon # Str (units_of v) # ts) (lexer Outside rest)"
  by (simp add: json_member_def lexer_quote is_ws_def is_bare_def punct_def
      option.map_comp comp_def)


lemma run_members:
  "kvs \<noteq> [] \<Longrightarrow> e = Key \<or> e = KeyOrClose \<Longrightarrow>
   Option.bind (lexer Outside (json_members kvs @ [CHR ''}''])) (run e [InObject ms None]) =
     Some (JObject (rev ms @ map (\<lambda>(k, v). (units_of k, JString (units_of v))) kvs))"
proof (induction kvs arbitrary: ms e rule: json_members.induct)
  case 1
  then show ?case by simp
next
  case (2 k v)
  then show ?case
    by (auto simp: lexer_member is_ws_def is_bare_def punct_def)
next
  case (3 k v p kvs)
  let ?rest = "lexer Outside (json_members (p # kvs) @ [CHR ''}''])"
  have ih: "Option.bind ?rest (run Key [InObject ((units_of k, JString (units_of v)) # ms) None])
      = Some (JObject (rev ((units_of k, JString (units_of v)) # ms)
          @ map (\<lambda>(k, v). (units_of k, JString (units_of v))) (p # kvs)))"
    using "3.IH" [of Key "(units_of k, JString (units_of v)) # ms"] by simp
  then obtain ts where ts: "?rest = Some ts"
    by (auto simp: bind_eq_Some_conv)
  from "3.prems"(2) ih ts show ?case
    by (auto simp: lexer_member is_ws_def is_bare_def punct_def)
qed

lemma parse_stringify:
  "JSON_parse_ascii (ref_stringify u) =
     Returns (Some (JObject (map (\<lambda>(k, v). (units_of k, JString (units_of v))) (user_members u))))"
proof -
  have ne: "user_members u \<noteq> []"
    by (simp add: user_members_def)
  let ?rest = "lexer Outside (json_members (user_members u) @ [CHR ''}''])"
  have body: "Option.bind ?rest (run KeyOrClose [InObject [] None]) =
      Some (JObject (map (\<lambda>(k, v). (units_of k, JString (units_of v))) (user_members u)))"
    using run_members [OF ne, of KeyOrClose "[]"] by simp
  then obtain ts where ts: "?rest = Some ts"
    by (auto simp: bind_eq_Some_conv)
  with body show ?thesis
    by (simp add: JSON_parse_ascii_def ref_stringify_def is_ws_def is_bare_def punct_def)
qed

lemma units_of_eq_iff [simp]: "units_of a = units_of b \<longleftrightarrow> a = b"
  by (simp add: units_of_def inj_map_eq_map [OF inj_of_char])

lemma string_of_units_of [simp]: "string_of_units (units_of s) = Some s"
  by (simp add: string_of_units_def units_of_def list_all_iff comp_def)

lemma parse_role_string [simp]: "parse_role (role_string r) = Some r"
  by (cases r) (simp_all add: parse_role_def)

lemma parse_status_string [simp]: "parse_status (status_string s) = Some s"
  by (cases s) (simp_all add: parse_status_def)

lemma user_of_json_members:
  "user_of_json (JObject (map (\<lambda>(k, v). (units_of k, JString (units_of v))) (user_members u)))
     = Some u"
  by (cases "avatarUrl u"; cases "lastLoginAt u")
     (simp_all add: user_of_json_def user_members_def optional_member_def string_member_def
        optional_string_member_def)

lemma ref_codec_roundtrip: "ref_parse (ref_stringify u) = Returns (Some u)"
  by (simp add: ref_parse_def parse_stringify user_of_json_members)

section \<open>Identity session\<close>

text \<open>
  C7, as amended. \<open>logout\<close> ends with the session entry removed from the store and the
  session anonymous (no user, not authenticated, not loading) whenever the provider's
  sign-out notification completes, as the one of the mock provider always does. When the
  notification fails, the failure goes to the caller and neither the store nor the
  session is changed.
\<close>

theorem logout_clears_when_notified:
  "logout (Inr ()) (prev, ls) =
     (Inr (), \<lparr>user = None, isAuthenticated = False, isLoading = False\<rparr>,
      ls(AUTH_STORAGE_KEY := None))
   \<and> logout authApi_logout (prev, ls) = logout (Inr ()) (prev, ls)
   \<and> snd (snd (logout authApi_logout (prev, ls))) AUTH_STORAGE_KEY = None
   \<and> logout (Inl e) (prev, ls) = (Inl e, prev, ls)"
  by (simp add: logout_def authApi_logout_def)

text \<open>
  C7 as stated fails: the provider call is not best-effort. On a rejected notification
  the signed-in session and its store entry are both still there.
\<close>

theorem logout_failed_notification_counterexample:
  "logout (Inl (Error ''Network Error''))
      (signedIn sarah, [AUTH_STORAGE_KEY \<mapsto> ref_stringify sarah])
     = (Inl (Error ''Network Error''), signedIn sarah,
        [AUTH_STORAGE_KEY \<mapsto> ref_stringify sarah])
   \<and> user (signedIn sarah) = Some sarah
   \<and> isAuthenticated (signedIn sarah)
   \<and> [AUTH_STORAGE_KEY \<mapsto> ref_stringify sarah] AUTH_STORAGE_KEY = Some (ref_stringify sarah)"
  by (simp add: logout_def signedIn_def)




text \<open>
  C9. Session restore round-trip. For every user that the provider returns on sign-in,
  given a codec that reads back what it wrote for this user (as \<open>JSON.parse\<close> does with
  the output of \<open>JSON.stringify\<close>, which is never the empty string): \<open>login\<close> succeeds and
  stores the serialized user, and the restore effect, run from the initial in-memory
  state on the resulting store, yields the authenticated session with a user equal to
  the original, so equal in every field.
\<close>

theorem session_restore_roundtrip:
  assumes "api_login r tid = Inr u"
    and "JSON_parse (JSON_stringify u) = Returns (Some u)"
    and "JSON_stringify u \<noteq> []"
  shows "fst (login JSON_stringify api_login r tid (prev, ls)) = Inr ()
         \<and> snd (snd (login JSON_stringify api_login r tid (prev, ls))) AUTH_STORAGE_KEY
             = Some (JSON_stringify u)
         \<and> fst (AuthProvider_restore JSON_parse
                 (initialAuthState, snd (snd (login JSON_stringify api_login r tid (prev, ls)))))
             = \<lparr>user = Some u, isAuthenticated = True, isLoading = False\<rparr>"
  using assms
  by (simp add: login_def AuthProvider_restore_def truthy_def)

lemma mock_login_david: "mock_authApi_login noon org_admin ''tenant-2'' = Inr david"
  by (simp add: mock_authApi_login_def authApi_login_def mockUsers_def david_def)

theorem session_restore_roundtrip_witness:
  "fst (login ref_stringify (mock_authApi_login noon) org_admin ''tenant-2''
          (initialAuthState, Map.empty)) = Inr ()
   \<and> fst (AuthProvider_restore ref_parse
          (initialAuthState,
           snd (snd (login ref_stringify (mock_authApi_login noon) org_admin ''tenant-2''
                      (initialAuthState, Map.empty)))))
       = \<lparr>user = Some david, isAuthenticated = True, isLoading = False\<rparr>
   \<and> role david = org_admin \<and> tenantId david = ''tenant-2''"
  using session_restore_roundtrip [where api_login = "mock_authApi_login noon"
      and r = org_admin and tid = "''tenant-2''" and u = david and JSON_parse = ref_parse
      and JSON_stringify = ref_stringify and prev = initialAuthState and ls = Map.empty,
      OF mock_login_david ref_codec_roundtrip ref_stringify_nonempty]
  by (simp add: david_def)

section \<open>The mock identity provider\<close>

lemma find_role_tenant:
  "find (\<lambda>u. role u = r \<and> tenantId u = tid) us = Some u \<Longrightarrow> role u = r \<and> tenantId u = tid"
  by (induction us) (auto split: if_splits)

lemma find_super_admin: "find (\<lambda>u. role u = super_admin) mockUsers = Some sarah"
  by (simp add: mockUsers_def sarah_def)

lemma authApi_login_role: "role (authApi_login clock r tid) = r"
proof (cases "r = super_admin")
  case True
  then show ?thesis
    by (simp add: authApi_login_def find_super_admin sarah_def)
next
  case False
  then show ?thesis
    by (auto simp: authApi_login_def dest: find_role_tenant split: option.splits)
qed

lemma authApi_login_fabricated_id:
  "u_id (authApi_login \<lparr>Date_now = 1735732800000, createdAt_iso = c, lastLoginAt_iso = l\<rparr>
      member ''tenant-9'') = ''user-1735732800000''"
  by (simp add: authApi_login_def mockUsers_def decimal.simps digit_char_def)

text \<open>
  C10. The mock provider's \<open>login\<close> never fails: for every role and tenant id it returns
  a user (of the requested role), so \<open>login\<close> of the authentication context never takes
  its error path with it. When no mock user matches at the test \<open>if (!user)\<close>, the user
  returned is a fabricated one with the requested role and tenant id and the status
  \<open>active\<close>. For \<open>super_admin\<close> the user returned is the one \<open>super_admin\<close> of the mock
  users, whatever the tenant id.
\<close>

theorem authApi_login_total:
  "(\<exists>u. mock_authApi_login clock r tid = Inr u \<and> role u = r)
   \<and> fst (login JSON_stringify (mock_authApi_login clock) r tid (prev, ls)) = Inr ()
   \<and> ((if r = super_admin then find (\<lambda>u. role u = super_admin) mockUsers
        else find (\<lambda>u. role u = r \<and> tenantId u = tid) mockUsers) = None \<longrightarrow>
       role (authApi_login clock r tid) = r
       \<and> tenantId (authApi_login clock r tid) = tid
       \<and> status (authApi_login clock r tid) = active)
   \<and> authApi_login clock super_admin tid = sarah
   \<and> sarah \<in> set mockUsers"
proof -
  have total: "\<exists>u. mock_authApi_login clock r tid = Inr u \<and> role u = r"
    by (simp add: mock_authApi_login_def authApi_login_role)
  have no_error: "fst (login JSON_stringify (mock_authApi_login clock) r tid (prev, ls)) = Inr ()"
    by (simp add: login_def mock_authApi_login_def)
  have fabricated:
    "(if r = super_admin then find (\<lambda>u. role u = super_admin) mockUsers
      else find (\<lambda>u. role u = r \<and> tenantId u = tid) mockUsers) = None \<longrightarrow>
       role (authApi_login clock r tid) = r
       \<and> tenantId (authApi_login clock r tid) = tid
       \<and> status (authApi_login clock r tid) = active"
    by (simp add: authApi_login_def Let_def)
  have fixed: "authApi_login clock super_admin tid = sarah"
    by (simp add: authApi_login_def find_super_admin)
  have listed: "sarah \<in> set mockUsers"
    by (simp add: mockUsers_def sarah_def)
  from total no_error fabricated fixed listed show ?thesis
    by blast
qed

theorem authApi_login_total_witness:
  "role (authApi_login noon member ''tenant-9'') = member
   \<and> tenantId (authApi_login noon member ''tenant-9'') = ''tenant-9''
   \<and> status (authApi_login noon member ''tenant-9'') = active
   \<and> authApi_login noon super_admin ''tenant-3'' = sarah"
proof -
  have none: "(if member = super_admin then find (\<lambda>u. role u = super_admin) mockUsers
      else find (\<lambda>u. role u = member \<and> tenantId u = ''tenant-9'') mockUsers) = None"
    by (simp add: mockUsers_def)
  show ?thesis
    using none authApi_login_total [of noon member "''tenant-9''" ref_stringify initialAuthState
        Map.empty]
      authApi_login_total [of noon super_admin "''tenant-3''" ref_stringify initialAuthState
        Map.empty]
    by simp
qed

end
